theory Spec2Isabelle
  imports Main "HOL-Library.Sublist"
begin

section \<open>pkg/apkox/apko.go: the data model\<close>

text \<open>
  Go strings are byte sequences, modelled as \<open>string\<close> (a list of 8-bit characters).
  A slice of strings is a list; the nil slice and the empty slice are both \<open>[]\<close>,
  which the source never distinguishes (it only appends to and ranges over them).
  A slice is modelled by its contents: a backing array shared between the builder and
  a caller's slice is outside the model.
  \<open>map[string]string\<close> is a partial map, the nil map being \<open>Map.empty\<close>.
\<close>

type_synonym Architecture = string

definition ArchX8664 :: Architecture where "ArchX8664 = ''x86_64''"
definition ArchAarch64 :: Architecture where "ArchAarch64 = ''aarch64''"
definition ArchArmv7 :: Architecture where "ArchArmv7 = ''armv7''"
definition ArchPpc64le :: Architecture where "ArchPpc64le = ''ppc64le''"
definition ArchS390x :: Architecture where "ArchS390x = ''s390x''"

definition ApkoDefaultRepositoryURL :: string where
  "ApkoDefaultRepositoryURL = ''cgr.dev/chainguard/apko''"

definition ApkoWolfiSigninRsaKeyPath :: string where
  "ApkoWolfiSigninRsaKeyPath = ''/etc/apk/keys/wolfi-signing.rsa.pub''"

definition ApkoAlpineSigninRsaKeyPath :: string where
  "ApkoAlpineSigninRsaKeyPath =
     ''/etc/apk/keys/alpine-devel@lists.alpinelinux.org-4a6a0840.rsa.pub''"

text \<open>The struct \<open>ApkoBuilder\<close>, field by field in the order of the source.\<close>

record ApkoBuilder =
  configFile :: string
  outputImage :: string
  tag :: string
  outputTarball :: string
  keyringPaths :: "string list"
  cacheDir :: string
  extraArgs :: "string list"
  wolfiKeyring :: bool
  alpineKeyring :: bool
  buildArch :: string
  buildContext :: string
  debug :: bool
  keyringAppendPlaintext :: "string list"
  noNetwork :: bool
  repositoryAppend :: "string list"
  timestamp :: string
  annotations :: "string \<rightharpoonup> string"
  buildDate :: string
  lockfile :: string
  offline :: bool
  packageAppend :: "string list"
  sbom :: bool
  sbomFormats :: "string list"
  sbomPath :: string
  vcs :: bool
  logLevel :: string
  logPolicy :: "string list"
  workdir :: string

record KeyringInfo =
  KeyURL :: string
  KeyPath :: string

text \<open>An \<open>error\<close> value built by \<open>fmt.Errorf\<close> is its message; the nil error is \<open>None\<close>.\<close>

datatype error = Errorf string

section \<open>The constructor and the setters\<close>

text \<open>
  \<open>NewApkoBuilder\<close> returns \<open>&ApkoBuilder{}\<close>: every field has Go's zero value.
  Each setter mutates the builder through its pointer and returns the same pointer; the
  model takes the builder and returns the updated one.
\<close>

definition NewApkoBuilder :: ApkoBuilder where
  "NewApkoBuilder =
     \<lparr>configFile = [], outputImage = [], tag = [], outputTarball = [],
      keyringPaths = [], cacheDir = [], extraArgs = [],
      wolfiKeyring = False, alpineKeyring = False,
      buildArch = [], buildContext = [], debug = False,
      keyringAppendPlaintext = [], noNetwork = False, repositoryAppend = [],
      timestamp = [], annotations = Map.empty, buildDate = [], lockfile = [],
      offline = False, packageAppend = [], sbom = False, sbomFormats = [],
      sbomPath = [], vcs = False, logLevel = [], logPolicy = [], workdir = []\<rparr>"

definition WithBuildArch :: "Architecture \<Rightarrow> ApkoBuilder \<Rightarrow> ApkoBuilder" where
  "WithBuildArch arch b = b\<lparr>buildArch := arch\<rparr>"

definition WithConfigFile :: "string \<Rightarrow> ApkoBuilder \<Rightarrow> ApkoBuilder" where
  "WithConfigFile cf b = b\<lparr>configFile := cf\<rparr>"

definition WithOutputImage :: "string \<Rightarrow> ApkoBuilder \<Rightarrow> ApkoBuilder" where
  "WithOutputImage img b = b\<lparr>outputImage := img\<rparr>"

definition WithOutputTarball :: "string \<Rightarrow> ApkoBuilder \<Rightarrow> ApkoBuilder" where
  "WithOutputTarball tb b = b\<lparr>outputTarball := tb\<rparr>"

definition WithKeyring :: "string \<Rightarrow> ApkoBuilder \<Rightarrow> ApkoBuilder" where
  "WithKeyring keyringPath b = b\<lparr>keyringPaths := keyringPaths b @ [keyringPath]\<rparr>"

definition WithWolfiKeyring :: "ApkoBuilder \<Rightarrow> ApkoBuilder" where
  "WithWolfiKeyring b = b\<lparr>wolfiKeyring := True\<rparr>"

definition WithAlpineKeyring :: "ApkoBuilder \<Rightarrow> ApkoBuilder" where
  "WithAlpineKeyring b = b\<lparr>alpineKeyring := True\<rparr>"

definition WithArchitecture :: "string \<Rightarrow> ApkoBuilder \<Rightarrow> ApkoBuilder" where
  "WithArchitecture arch b = b\<lparr>buildArch := arch\<rparr>"

definition WithCacheDir :: "string \<Rightarrow> ApkoBuilder \<Rightarrow> ApkoBuilder" where
  "WithCacheDir dir b = b\<lparr>cacheDir := dir\<rparr>"

definition WithExtraArg :: "string \<Rightarrow> ApkoBuilder \<Rightarrow> ApkoBuilder" where
  "WithExtraArg arg b = b\<lparr>extraArgs := extraArgs b @ [arg]\<rparr>"

definition WithBuildContext :: "string \<Rightarrow> ApkoBuilder \<Rightarrow> ApkoBuilder" where
  "WithBuildContext dir b = b\<lparr>buildContext := dir\<rparr>"

definition WithDebug :: "ApkoBuilder \<Rightarrow> ApkoBuilder" where
  "WithDebug b = b\<lparr>debug := True\<rparr>"

definition WithKeyringAppendPlaintext :: "string \<Rightarrow> ApkoBuilder \<Rightarrow> ApkoBuilder" where
  "WithKeyringAppendPlaintext keyring b =
     b\<lparr>keyringAppendPlaintext := keyringAppendPlaintext b @ [keyring]\<rparr>"

definition WithNoNetwork :: "ApkoBuilder \<Rightarrow> ApkoBuilder" where
  "WithNoNetwork b = b\<lparr>noNetwork := True\<rparr>"

definition WithRepositoryAppend :: "string \<Rightarrow> ApkoBuilder \<Rightarrow> ApkoBuilder" where
  "WithRepositoryAppend repo b = b\<lparr>repositoryAppend := repositoryAppend b @ [repo]\<rparr>"

definition WithTimestamp :: "string \<Rightarrow> ApkoBuilder \<Rightarrow> ApkoBuilder" where
  "WithTimestamp ts b = b\<lparr>timestamp := ts\<rparr>"

definition WithTag :: "string \<Rightarrow> ApkoBuilder \<Rightarrow> ApkoBuilder" where
  "WithTag t b = b\<lparr>tag := t\<rparr>"

definition WithAnnotations :: "(string \<rightharpoonup> string) \<Rightarrow> ApkoBuilder \<Rightarrow> ApkoBuilder" where
  "WithAnnotations ann b = b\<lparr>annotations := ann\<rparr>"

definition WithBuildDate :: "string \<Rightarrow> ApkoBuilder \<Rightarrow> ApkoBuilder" where
  "WithBuildDate date b = b\<lparr>buildDate := date\<rparr>"

definition WithLockfile :: "string \<Rightarrow> ApkoBuilder \<Rightarrow> ApkoBuilder" where
  "WithLockfile path b = b\<lparr>lockfile := path\<rparr>"

definition WithOffline :: "ApkoBuilder \<Rightarrow> ApkoBuilder" where
  "WithOffline b = b\<lparr>offline := True\<rparr>"

text \<open>Variadic: \<open>append(b.packageAppend, packages...)\<close>.\<close>

definition WithPackageAppend :: "string list \<Rightarrow> ApkoBuilder \<Rightarrow> ApkoBuilder" where
  "WithPackageAppend packages b = b\<lparr>packageAppend := packageAppend b @ packages\<rparr>"

definition WithSBOM :: "bool \<Rightarrow> ApkoBuilder \<Rightarrow> ApkoBuilder" where
  "WithSBOM enable b = b\<lparr>sbom := enable\<rparr>"

text \<open>Variadic, and an assignment: \<open>b.sbomFormats = formats\<close>.\<close>

definition WithSBOMFormats :: "string list \<Rightarrow> ApkoBuilder \<Rightarrow> ApkoBuilder" where
  "WithSBOMFormats formats b = b\<lparr>sbomFormats := formats\<rparr>"

definition WithSBOMPath :: "string \<Rightarrow> ApkoBuilder \<Rightarrow> ApkoBuilder" where
  "WithSBOMPath path b = b\<lparr>sbomPath := path\<rparr>"

definition WithVCS :: "bool \<Rightarrow> ApkoBuilder \<Rightarrow> ApkoBuilder" where
  "WithVCS enable b = b\<lparr>vcs := enable\<rparr>"

definition WithLogLevel :: "string \<Rightarrow> ApkoBuilder \<Rightarrow> ApkoBuilder" where
  "WithLogLevel level b = b\<lparr>logLevel := level\<rparr>"

text \<open>Variadic, and an assignment: \<open>b.logPolicy = policies\<close>.\<close>

definition WithLogPolicy :: "string list \<Rightarrow> ApkoBuilder \<Rightarrow> ApkoBuilder" where
  "WithLogPolicy policies b = b\<lparr>logPolicy := policies\<rparr>"

definition WithWorkdir :: "string \<Rightarrow> ApkoBuilder \<Rightarrow> ApkoBuilder" where
  "WithWorkdir dir b = b\<lparr>workdir := dir\<rparr>"

section \<open>BuildCommand\<close>

text \<open>
  \<open>BuildCommand\<close> returns the pair \<open>([]string, error)\<close> and may assign \<open>b.tag\<close>, so
  the model returns the pair together with the builder after the call. The returned
  slice is \<open>None\<close> where the source returns \<open>nil\<close>. The command is built as the source
  builds it: a sequence of appends to \<open>cmd\<close>, the keyring loop being a left fold.
  \<open>fmt.Sprintf("%s:%s", x, y)\<close> is \<open>x @ '':'' @ y\<close>.
\<close>

definition BuildCommand ::
  "ApkoBuilder \<Rightarrow> (string list option \<times> error option) \<times> ApkoBuilder" where
  "BuildCommand b =
     (if configFile b = [] then ((None, Some (Errorf ''config file is required'')), b)
      else if outputImage b = [] then
        ((None, Some (Errorf ''output image name is required'')), b)
      else if outputTarball b = [] then
        ((None, Some (Errorf ''output tarball path is required'')), b)
      else
        let b1 = (if tag b = [] then b\<lparr>tag := ''latest''\<rparr> else b);
            cmd0 = [''apko'', ''build''];
            cmd1 = (if cacheDir b1 \<noteq> [] then cmd0 @ [''--cache-dir'', cacheDir b1]
                    else cmd0);
            cmd2 = foldl (\<lambda>cmd k. cmd @ [''--keyring-append'', k]) cmd1 (keyringPaths b1);
            cmd3 = (if buildArch b1 \<noteq> [] then cmd2 @ [''--arch'', buildArch b1] else cmd2);
            cmd4 = (if buildContext b1 \<noteq> [] then
                      cmd3 @ [''--build-repository-append'', buildContext b1]
                    else cmd3);
            cmd5 = (if \<not> sbom b1 then cmd4 @ [''--sbom=false''] else cmd4);
            cmd6 = (if \<not> vcs b1 then cmd5 @ [''--vcs=false''] else cmd5);
            imageRef = outputImage b1 @ '':'' @ tag b1;
            cmd7 = cmd6 @ [configFile b1, imageRef, outputTarball b1];
            cmd8 = cmd7 @ extraArgs b1
        in ((Some cmd8, None), b1))"

section \<open>Preset lookup and the preset setters\<close>

text \<open>
  \<open>GetKeyringInfoForPreset\<close> returns \<open>(KeyringInfo, error)\<close>; in the default case the
  struct is the zero value \<open>KeyringInfo{}\<close> and the error is
  \<open>fmt.Errorf("unsupported preset: %s", preset)\<close>. The \<open>switch\<close> compares strings
  byte for byte.
\<close>

definition GetKeyringInfoForPreset :: "string \<Rightarrow> KeyringInfo \<times> error option" where
  "GetKeyringInfoForPreset preset =
     (if preset = ''alpine'' then
        (\<lparr>KeyURL = ''https://alpinelinux.org/keys/alpine-devel@lists.alpinelinux.org-4a6a0840.rsa.pub'',
          KeyPath = ''/etc/apk/keys/alpine-devel@lists.alpinelinux.org-4a6a0840.rsa.pub''\<rparr>, None)
      else if preset = ''wolfi'' then
        (\<lparr>KeyURL = ''https://packages.wolfi.dev/os/wolfi-signing.rsa.pub'',
          KeyPath = ''/etc/apk/keys/wolfi-signing.rsa.pub''\<rparr>, None)
      else (\<lparr>KeyURL = [], KeyPath = []\<rparr>, Some (Errorf (''unsupported preset: '' @ preset))))"

definition WithKeyRingWolfi :: "ApkoBuilder \<Rightarrow> ApkoBuilder" where
  "WithKeyRingWolfi b =
     (case GetKeyringInfoForPreset ''wolfi'' of
        (wolfiKeyInfo, None) \<Rightarrow> b\<lparr>keyringPaths := keyringPaths b @ [KeyPath wolfiKeyInfo]\<rparr>
      | (wolfiKeyInfo, Some err) \<Rightarrow> b)"

definition WithKeyRingAlpine :: "ApkoBuilder \<Rightarrow> ApkoBuilder" where
  "WithKeyRingAlpine b =
     (case GetKeyringInfoForPreset ''alpine'' of
        (alpineKeyInfo, None) \<Rightarrow> b\<lparr>keyringPaths := keyringPaths b @ [KeyPath alpineKeyInfo]\<rparr>
      | (alpineKeyInfo, Some err) \<Rightarrow> b)"

section \<open>The configuration file check\<close>

text \<open>
  \<open>GetApkoConfigOrPreset\<close> calls \<open>filepath.Ext\<close> of Go's standard library:
  \<^verbatim>\<open>
  for i := len(path) - 1; i >= 0 && !os.IsPathSeparator(path[i]); i-- {
      if path[i] == '.' { return path[i:] }
  }
  return ""
  \<close>
  \<open>os.IsPathSeparator\<close> depends on the target system: the slash on Unix, the slash and
  the backslash on Windows. The loop counter of \<open>Ext_loop\<close> is \<open>i + 1\<close>, so that the
  end of the loop (\<open>i = -1\<close>) is \<open>0\<close>; every index read is below \<open>length path\<close>.
\<close>

datatype goos = Unix | Windows

fun IsPathSeparator :: "goos \<Rightarrow> char \<Rightarrow> bool" where
  "IsPathSeparator Unix c = (c = CHR ''/'')"
| "IsPathSeparator Windows c = (c = CHR 0x5C \<or> c = CHR ''/'')"

fun Ext_loop :: "goos \<Rightarrow> string \<Rightarrow> nat \<Rightarrow> string" where
  "Ext_loop os path 0 = []"
| "Ext_loop os path (Suc i) =
     (if IsPathSeparator os (path ! i) then []
      else if path ! i = CHR ''.'' then drop i path
      else Ext_loop os path i)"

definition Ext :: "goos \<Rightarrow> string \<Rightarrow> string" where
  "Ext os path = Ext_loop os path (length path)"

text \<open>
  The constant \<open>fixtures.MntPrefix\<close> is declared in another package of the repository;
  it is the parameter \<open>fixtures_MntPrefix\<close>. The source assigns the defaulted prefix to
  its local variable and never reads it again.
\<close>

definition GetApkoConfigOrPreset ::
  "goos \<Rightarrow> string \<Rightarrow> string \<Rightarrow> string \<Rightarrow> string \<times> error option" where
  "GetApkoConfigOrPreset os fixtures_MntPrefix mntPrefix cfgFile =
     (let mntPrefix' = (if mntPrefix = [] then fixtures_MntPrefix else mntPrefix) in
      if cfgFile = [] then ([], Some (Errorf ''config file is required''))
      else
        let ext = Ext os cfgFile in
        if ext = [] then ([], Some (Errorf ''config file must have an extension''))
        else if ext \<noteq> ''.yaml'' \<and> ext \<noteq> ''.yml'' then
          ([], Some (Errorf ''config file must have a .yaml or .yml extension''))
        else (cfgFile, None))"

section \<open>Method calls on a builder\<close>

text \<open>
  The fields of \<open>ApkoBuilder\<close> are unexported: a caller gets a builder from
  \<open>NewApkoBuilder\<close> and changes it only through the methods. A \<open>call\<close> names one method
  call with its arguments; \<open>invoke\<close> dispatches it to the method, and \<open>chain\<close> runs a
  sequence of calls in call order. A call of \<open>BuildCommand\<close> in the sequence keeps the
  builder it leaves behind and drops the returned pair.
\<close>

datatype call =
    CallWithBuildArch Architecture
  | CallWithConfigFile string
  | CallWithOutputImage string
  | CallWithOutputTarball string
  | CallWithKeyring string
  | CallWithWolfiKeyring
  | CallWithAlpineKeyring
  | CallWithArchitecture string
  | CallWithCacheDir string
  | CallWithExtraArg string
  | CallWithBuildContext string
  | CallWithDebug
  | CallWithKeyringAppendPlaintext string
  | CallWithNoNetwork
  | CallWithRepositoryAppend string
  | CallWithTimestamp string
  | CallWithTag string
  | CallWithAnnotations "string \<rightharpoonup> string"
  | CallWithBuildDate string
  | CallWithLockfile string
  | CallWithOffline
  | CallWithPackageAppend "string list"
  | CallWithSBOM bool
  | CallWithSBOMFormats "string list"
  | CallWithSBOMPath string
  | CallWithVCS bool
  | CallWithLogLevel string
  | CallWithLogPolicy "string list"
  | CallWithWorkdir string
  | CallWithKeyRingWolfi
  | CallWithKeyRingAlpine
  | CallBuildCommand

fun invoke :: "call \<Rightarrow> ApkoBuilder \<Rightarrow> ApkoBuilder" where
  "invoke (CallWithBuildArch a) b = WithBuildArch a b"
| "invoke (CallWithConfigFile s) b = WithConfigFile s b"
| "invoke (CallWithOutputImage s) b = WithOutputImage s b"
| "invoke (CallWithOutputTarball s) b = WithOutputTarball s b"
| "invoke (CallWithKeyring s) b = WithKeyring s b"
| "invoke CallWithWolfiKeyring b = WithWolfiKeyring b"
| "invoke CallWithAlpineKeyring b = WithAlpineKeyring b"
| "invoke (CallWithArchitecture s) b = WithArchitecture s b"
| "invoke (CallWithCacheDir s) b = WithCacheDir s b"
| "invoke (CallWithExtraArg s) b = WithExtraArg s b"
| "invoke (CallWithBuildContext s) b = WithBuildContext s b"
| "invoke CallWithDebug b = WithDebug b"
| "invoke (CallWithKeyringAppendPlaintext s) b = WithKeyringAppendPlaintext s b"
| "invoke CallWithNoNetwork b = WithNoNetwork b"
| "invoke (CallWithRepositoryAppend s) b = WithRepositoryAppend s b"
| "invoke (CallWithTimestamp s) b = WithTimestamp s b"
| "invoke (CallWithTag s) b = WithTag s b"
| "invoke (CallWithAnnotations m) b = WithAnnotations m b"
| "invoke (CallWithBuildDate s) b = WithBuildDate s b"
| "invoke (CallWithLockfile s) b = WithLockfile s b"
| "invoke CallWithOffline b = WithOffline b"
| "invoke (CallWithPackageAppend ss) b = WithPackageAppend ss b"
| "invoke (CallWithSBOM e) b = WithSBOM e b"
| "invoke (CallWithSBOMFormats ss) b = WithSBOMFormats ss b"
| "invoke (CallWithSBOMPath s) b = WithSBOMPath s b"
| "invoke (CallWithVCS e) b = WithVCS e b"
| "invoke (CallWithLogLevel s) b = WithLogLevel s b"
| "invoke (CallWithLogPolicy ss) b = WithLogPolicy ss b"
| "invoke (CallWithWorkdir s) b = WithWorkdir s b"
| "invoke CallWithKeyRingWolfi b = WithKeyRingWolfi b"
| "invoke CallWithKeyRingAlpine b = WithKeyRingAlpine b"
| "invoke CallBuildCommand b = snd (BuildCommand b)"

definition chain :: "call list \<Rightarrow> ApkoBuilder \<Rightarrow> ApkoBuilder" where
  "chain cs b = foldl (\<lambda>b' c. invoke c b') b cs"

fun sets_sbom :: "call \<Rightarrow> bool" where
  "sets_sbom (CallWithSBOM e) = True"
| "sets_sbom c = False"

fun sets_vcs :: "call \<Rightarrow> bool" where
  "sets_vcs (CallWithVCS e) = True"
| "sets_vcs c = False"

section \<open>The layout of the command, in the words of the specification\<close>

text \<open>
  The specification describes the output as four groups: the two base tokens, the flag
  tokens in a fixed order (cache directory, each keyring path in insertion order,
  architecture, build context, then the SBOM and VCS flags), the three positional
  arguments (configuration file, image reference \<open>name:tag\<close> with the tag defaulting
  to "latest", output tarball), and the extra arguments. These definitions follow that
  description; the theorems below compare them with \<open>BuildCommand\<close>.
\<close>

definition base_tokens :: "string list" where
  "base_tokens = [''apko'', ''build'']"

definition cache_dir_flag :: "ApkoBuilder \<Rightarrow> string list" where
  "cache_dir_flag b = (if cacheDir b = [] then [] else [''--cache-dir'', cacheDir b])"

definition keyring_flags :: "ApkoBuilder \<Rightarrow> string list" where
  "keyring_flags b = concat (map (\<lambda>k. [''--keyring-append'', k]) (keyringPaths b))"

definition arch_flag :: "ApkoBuilder \<Rightarrow> string list" where
  "arch_flag b = (if buildArch b = [] then [] else [''--arch'', buildArch b])"

definition build_context_flag :: "ApkoBuilder \<Rightarrow> string list" where
  "build_context_flag b =
     (if buildContext b = [] then [] else [''--build-repository-append'', buildContext b])"

definition sbom_flag :: "ApkoBuilder \<Rightarrow> string list" where
  "sbom_flag b = (if sbom b then [] else [''--sbom=false''])"

definition vcs_flag :: "ApkoBuilder \<Rightarrow> string list" where
  "vcs_flag b = (if vcs b then [] else [''--vcs=false''])"

definition flag_tokens :: "ApkoBuilder \<Rightarrow> string list" where
  "flag_tokens b =
     cache_dir_flag b @ keyring_flags b @ arch_flag b @ build_context_flag b @
     sbom_flag b @ vcs_flag b"

definition image_reference :: "ApkoBuilder \<Rightarrow> string" where
  "image_reference b = outputImage b @ '':'' @ (if tag b = [] then ''latest'' else tag b)"

definition positional_tokens :: "ApkoBuilder \<Rightarrow> string list" where
  "positional_tokens b = [configFile b, image_reference b, outputTarball b]"

text \<open>
  The strings of the output that come from the caller rather than from \<open>BuildCommand\<close>
  itself: the values of the flags, the configuration file, the tarball and the extra
  arguments. (The image reference always holds a colon.)
\<close>

definition caller_tokens :: "ApkoBuilder \<Rightarrow> string list" where
  "caller_tokens b =
     cacheDir b # keyringPaths b @
     [buildArch b, buildContext b, configFile b, outputTarball b] @ extraArgs b"

section \<open>Having an extension, in the words of Go's documentation\<close>

text \<open>
  The documentation of \<open>filepath.Ext\<close>: the extension is the suffix beginning at the
  final dot in the final element of the path; it is empty if there is no dot. The final
  element is what follows the last path separator.
\<close>

definition final_element :: "goos \<Rightarrow> string \<Rightarrow> string" where
  "final_element os path = rev (takeWhile (\<lambda>c. \<not> IsPathSeparator os c) (rev path))"

definition has_extension :: "goos \<Rightarrow> string \<Rightarrow> bool" where
  "has_extension os path = (CHR ''.'' \<in> set (final_element os path))"

section \<open>Builders used as concrete inputs\<close>

text \<open>
  \<open>scenario_builder\<close> is the builder of the specification's concrete scenario;
  \<open>ordering_builder\<close> adds two keyrings, an architecture, an enabled VCS toggle and an
  extra argument; \<open>other_fields_builder\<close> differs from \<open>scenario_builder\<close> only in
  fields that \<open>BuildCommand\<close> does not read. \<open>scenario_calls\<close> are the method
  calls that make \<open>scenario_builder\<close> from a new builder.
\<close>

definition scenario_builder :: ApkoBuilder where
  "scenario_builder = WithCacheDir ''/cache'' (WithOutputTarball ''out.tar''
        (WithOutputImage ''myimage'' (WithConfigFile ''app.yaml'' NewApkoBuilder)))"

definition ordering_builder :: ApkoBuilder where
  "ordering_builder = WithExtraArg ''--x'' (WithVCS True (WithArchitecture ''aarch64''
          (WithKeyring ''k2'' (WithKeyring ''k1'' scenario_builder))))"

definition other_fields_builder :: ApkoBuilder where
  "other_fields_builder = WithLogPolicy [''p''] (WithSBOMFormats [''spdx''] (WithDebug
     (WithOffline (WithAlpineKeyring (WithWolfiKeyring (WithWorkdir ''/w''
       (WithLockfile ''l'' scenario_builder)))))))"

definition scenario_calls :: "call list" where
  "scenario_calls = [CallWithConfigFile ''app.yaml'', CallWithOutputImage ''myimage'',
     CallWithOutputTarball ''out.tar'', CallWithCacheDir ''/cache'']"

section \<open>Lemmas shared by the claims\<close>

lemmas setter_defs =
  WithBuildArch_def WithConfigFile_def WithOutputImage_def WithOutputTarball_def
  WithKeyring_def WithWolfiKeyring_def WithAlpineKeyring_def WithArchitecture_def
  WithCacheDir_def WithExtraArg_def WithBuildContext_def WithDebug_def
  WithKeyringAppendPlaintext_def WithNoNetwork_def WithRepositoryAppend_def
  WithTimestamp_def WithTag_def WithAnnotations_def WithBuildDate_def WithLockfile_def
  WithOffline_def WithPackageAppend_def WithSBOM_def WithSBOMFormats_def WithSBOMPath_def
  WithVCS_def WithLogLevel_def WithLogPolicy_def WithWorkdir_def

lemma foldl_append_pair:
  "foldl (\<lambda>cmd k. cmd @ [f, k]) acc ks = acc @ concat (map (\<lambda>k. [f, k]) ks)"
  by (induction ks arbitrary: acc) simp_all

lemma BuildCommand_missing:
  "configFile b = [] \<or> outputImage b = [] \<or> outputTarball b = [] \<Longrightarrow>
   BuildCommand b =
     ((None, Some (Errorf (if configFile b = [] then ''config file is required''
                           else if outputImage b = [] then ''output image name is required''
                           else ''output tarball path is required''))), b)"
  by (auto simp: BuildCommand_def)

lemma BuildCommand_layout:
  assumes "configFile b \<noteq> []" and "outputImage b \<noteq> []" and "outputTarball b \<noteq> []"
  shows "BuildCommand b =
     ((Some (base_tokens @ flag_tokens b @ positional_tokens b @ extraArgs b), None),
      b\<lparr>tag := (if tag b = [] then ''latest'' else tag b)\<rparr>)"
  using assms
  by (simp add: BuildCommand_def Let_def foldl_append_pair base_tokens_def flag_tokens_def
      cache_dir_flag_def keyring_flags_def arch_flag_def build_context_flag_def sbom_flag_def
      vcs_flag_def positional_tokens_def image_reference_def)

lemma four_groups:
  assumes "cmd = a @ f @ p @ e"
  shows "take (length a) cmd = a"
    and "take (length f) (drop (length a) cmd) = f"
    and "take (length p) (drop (length a + length f) cmd) = p"
    and "drop (length a + length f + length p) cmd = e"
  using assms by simp_all

subsection \<open>Counting a flag in the command\<close>

lemma count_list_pairs:
  "x \<noteq> f \<Longrightarrow> count_list (concat (map (\<lambda>k. [f, k]) ks)) x = count_list ks x"
  by (induction ks) simp_all

lemma image_reference_has_colon: "CHR '':'' \<in> set (image_reference b)"
  by (simp add: image_reference_def)

lemma count_sbom_flag:
  "count_list (base_tokens @ flag_tokens b @ positional_tokens b @ extraArgs b) ''--sbom=false''
   = (if sbom b then 0 else 1) + count_list (caller_tokens b) ''--sbom=false''"
proof -
  have "image_reference b \<noteq> ''--sbom=false''"
    using image_reference_has_colon [of b] by auto
  then show ?thesis
    by (simp add: base_tokens_def flag_tokens_def cache_dir_flag_def keyring_flags_def
        arch_flag_def build_context_flag_def sbom_flag_def vcs_flag_def positional_tokens_def
        caller_tokens_def count_list_pairs)
qed

lemma count_vcs_flag:
  "count_list (base_tokens @ flag_tokens b @ positional_tokens b @ extraArgs b) ''--vcs=false''
   = (if vcs b then 0 else 1) + count_list (caller_tokens b) ''--vcs=false''"
proof -
  have "image_reference b \<noteq> ''--vcs=false''"
    using image_reference_has_colon [of b] by auto
  then show ?thesis
    by (simp add: base_tokens_def flag_tokens_def cache_dir_flag_def keyring_flags_def
        arch_flag_def build_context_flag_def sbom_flag_def vcs_flag_def positional_tokens_def
        caller_tokens_def count_list_pairs)
qed

lemma BuildCommand_counts:
  assumes "configFile b \<noteq> []" and "outputImage b \<noteq> []" and "outputTarball b \<noteq> []"
  shows "\<exists>cmd. fst (BuildCommand b) = (Some cmd, None) \<and>
           count_list cmd ''--sbom=false'' =
             (if sbom b then 0 else 1) + count_list (caller_tokens b) ''--sbom=false'' \<and>
           count_list cmd ''--vcs=false'' =
             (if vcs b then 0 else 1) + count_list (caller_tokens b) ''--vcs=false''"
  using BuildCommand_layout [OF assms] count_sbom_flag [of b] count_vcs_flag [of b]
  by simp

subsection \<open>Methods that leave the toggles alone\<close>

lemma BuildCommand_keeps:
  "snd (BuildCommand b) = b\<lparr>tag := tag (snd (BuildCommand b))\<rparr>"
  by (simp add: BuildCommand_def Let_def)

lemma invoke_keeps_sbom: "\<not> sets_sbom c \<Longrightarrow> sbom (invoke c b) = sbom b"
proof (cases c)
  case CallBuildCommand
  have "sbom (b\<lparr>tag := tag (snd (BuildCommand b))\<rparr>) = sbom b" by simp
  with CallBuildCommand show ?thesis using BuildCommand_keeps [of b] by simp
qed (simp_all add: setter_defs WithKeyRingWolfi_def WithKeyRingAlpine_def
      GetKeyringInfoForPreset_def)

lemma invoke_keeps_vcs: "\<not> sets_vcs c \<Longrightarrow> vcs (invoke c b) = vcs b"
proof (cases c)
  case CallBuildCommand
  have "vcs (b\<lparr>tag := tag (snd (BuildCommand b))\<rparr>) = vcs b" by simp
  with CallBuildCommand show ?thesis using BuildCommand_keeps [of b] by simp
qed (simp_all add: setter_defs WithKeyRingWolfi_def WithKeyRingAlpine_def
      GetKeyringInfoForPreset_def)

lemma chain_keeps_sbom: "list_all (\<lambda>c. \<not> sets_sbom c) cs \<Longrightarrow> sbom (chain cs b) = sbom b"
  unfolding chain_def by (induction cs arbitrary: b) (simp_all add: invoke_keeps_sbom)

lemma chain_keeps_vcs: "list_all (\<lambda>c. \<not> sets_vcs c) cs \<Longrightarrow> vcs (chain cs b) = vcs b"
  unfolding chain_def by (induction cs arbitrary: b) (simp_all add: invoke_keeps_vcs)

subsection \<open>The extension of a path\<close>

lemma Ext_loop_append:
  "n \<le> length p \<Longrightarrow>
   Ext_loop os (p @ q) n = (if Ext_loop os p n = [] then [] else Ext_loop os p n @ q)"
proof (induction n)
  case 0
  show ?case by simp
next
  case (Suc n)
  then have "n < length p" by simp
  with Suc show ?case by (simp add: nth_append)
qed

lemma Ext_snoc:
  "Ext os (p @ [c]) =
     (if IsPathSeparator os c then []
      else if c = CHR ''.'' then [c]
      else if Ext os p = [] then [] else Ext os p @ [c])"
  by (simp add: Ext_def Ext_loop_append)

lemma Ext_loop_suffix: "suffix (Ext_loop os p n) p"
  by (induction n) (simp_all add: suffix_drop)

lemma Ext_suffix: "suffix (Ext os p) p"
  by (simp add: Ext_def Ext_loop_suffix)

lemma has_extension_snoc:
  "has_extension os (p @ [c]) =
     (\<not> IsPathSeparator os c \<and> (c = CHR ''.'' \<or> has_extension os p))"
  by (auto simp: has_extension_def final_element_def)

lemma Ext_empty_iff: "Ext os p = [] \<longleftrightarrow> \<not> has_extension os p"
proof (induction p rule: rev_induct)
  case Nil
  show ?case by (simp add: Ext_def has_extension_def final_element_def)
next
  case (snoc c p)
  then show ?case by (simp add: Ext_snoc has_extension_snoc)
qed

lemma Ext_dot_append:
  "\<forall>c \<in> set e. \<not> IsPathSeparator os c \<and> c \<noteq> CHR ''.'' \<Longrightarrow>
   Ext os (q @ CHR ''.'' # e) = CHR ''.'' # e"
proof (induction e rule: rev_induct)
  case Nil
  have "Ext os (q @ [CHR ''.'']) = [CHR ''.'']"
    by (cases os) (simp_all add: Ext_snoc)
  then show ?case by simp
next
  case (snoc c e)
  then have ih: "Ext os (q @ CHR ''.'' # e) = CHR ''.'' # e" by simp
  have "Ext os ((q @ CHR ''.'' # e) @ [c]) = (CHR ''.'' # e) @ [c]"
    using snoc.prems by (simp only: Ext_snoc ih) simp
  then show ?case by simp
qed

lemma Ext_yaml_iff: "Ext os p = ''.yaml'' \<longleftrightarrow> suffix ''.yaml'' p"
proof
  assume "Ext os p = ''.yaml''"
  then show "suffix ''.yaml'' p" using Ext_suffix [of os p] by simp
next
  assume "suffix ''.yaml'' p"
  then obtain q where p: "p = q @ CHR ''.'' # ''yaml''" by (auto simp: suffix_def)
  have "\<forall>c \<in> set ''yaml''. \<not> IsPathSeparator os c \<and> c \<noteq> CHR ''.''"
    by (cases os) simp_all
  then show "Ext os p = ''.yaml''" unfolding p by (rule Ext_dot_append)
qed

lemma Ext_yml_iff: "Ext os p = ''.yml'' \<longleftrightarrow> suffix ''.yml'' p"
proof
  assume "Ext os p = ''.yml''"
  then show "suffix ''.yml'' p" using Ext_suffix [of os p] by simp
next
  assume "suffix ''.yml'' p"
  then obtain q where p: "p = q @ CHR ''.'' # ''yml''" by (auto simp: suffix_def)
  have "\<forall>c \<in> set ''yml''. \<not> IsPathSeparator os c \<and> c \<noteq> CHR ''.''"
    by (cases os) simp_all
  then show "Ext os p = ''.yml''" unfolding p by (rule Ext_dot_append)
qed

section \<open>Claims about BuildCommand\<close>

text \<open>
  C1. The builder with configFile "app.yaml", outputImage "myimage", outputTarball
  "out.tar" and cacheDir "/cache", the tag unset and nothing else set, yields exactly
  apko build --cache-dir /cache --sbom=false --vcs=false app.yaml myimage:latest out.tar
  and a nil error.
\<close>

theorem BuildCommand_scenario:
  "fst (BuildCommand
     (WithCacheDir ''/cache'' (WithOutputTarball ''out.tar''
        (WithOutputImage ''myimage'' (WithConfigFile ''app.yaml'' NewApkoBuilder)))))
   = (Some [''apko'', ''build'', ''--cache-dir'', ''/cache'', ''--sbom=false'',
            ''--vcs=false'', ''app.yaml'', ''myimage:latest'', ''out.tar''], None)"
  by (simp add: BuildCommand_def NewApkoBuilder_def WithCacheDir_def WithOutputTarball_def
      WithOutputImage_def WithConfigFile_def)

text \<open>
  C2. A builder missing one of the three required fields gets a nil sequence and the
  error naming the first missing field, in the order configFile, outputImage,
  outputTarball. Whenever the error is not nil the sequence is nil.
\<close>

theorem BuildCommand_missing_required:
  "(configFile b = [] \<longrightarrow>
      fst (BuildCommand b) = (None, Some (Errorf ''config file is required''))) \<and>
   (configFile b \<noteq> [] \<and> outputImage b = [] \<longrightarrow>
      fst (BuildCommand b) = (None, Some (Errorf ''output image name is required''))) \<and>
   (configFile b \<noteq> [] \<and> outputImage b \<noteq> [] \<and> outputTarball b = [] \<longrightarrow>
      fst (BuildCommand b) = (None, Some (Errorf ''output tarball path is required''))) \<and>
   (\<forall>e. snd (fst (BuildCommand b)) = Some e \<longrightarrow> fst (fst (BuildCommand b)) = None)"
  by (simp add: BuildCommand_def Let_def)

theorem BuildCommand_missing_required_witness:
  "fst (BuildCommand NewApkoBuilder) = (None, Some (Errorf ''config file is required'')) \<and>
   fst (BuildCommand (WithOutputTarball ''out.tar'' (WithConfigFile ''app.yaml'' NewApkoBuilder)))
     = (None, Some (Errorf ''output image name is required'')) \<and>
   fst (BuildCommand (WithOutputImage ''myimage'' (WithConfigFile ''app.yaml'' NewApkoBuilder)))
     = (None, Some (Errorf ''output tarball path is required'')) \<and>
   fst (fst (BuildCommand (WithOutputImage ''myimage'' NewApkoBuilder))) = None \<and>
   snd (fst (BuildCommand (WithOutputImage ''myimage'' NewApkoBuilder)))
     = Some (Errorf ''config file is required'')"
  using BuildCommand_missing_required [of NewApkoBuilder]
    BuildCommand_missing_required
      [of "WithOutputTarball ''out.tar'' (WithConfigFile ''app.yaml'' NewApkoBuilder)"]
    BuildCommand_missing_required
      [of "WithOutputImage ''myimage'' (WithConfigFile ''app.yaml'' NewApkoBuilder)"]
    BuildCommand_missing_required [of "WithOutputImage ''myimage'' NewApkoBuilder"]
  by (simp add: NewApkoBuilder_def setter_defs)

text \<open>
  C3 (counterexample). \<open>WithSBOMFormats\<close> and \<open>WithLogPolicy\<close> assign their argument
  list: after a call with "a" and a call with "b" the list is "b" alone, not "a", "b".
\<close>

theorem list_setters_counterexample:
  "sbomFormats (WithSBOMFormats [''b''] (WithSBOMFormats [''a''] NewApkoBuilder)) = [''b''] \<and>
   sbomFormats (WithSBOMFormats [''b''] (WithSBOMFormats [''a''] NewApkoBuilder))
     \<noteq> sbomFormats NewApkoBuilder @ [''a'', ''b''] \<and>
   logPolicy (WithLogPolicy [''b''] (WithLogPolicy [''a''] NewApkoBuilder)) = [''b''] \<and>
   logPolicy (WithLogPolicy [''b''] (WithLogPolicy [''a''] NewApkoBuilder))
     \<noteq> logPolicy NewApkoBuilder @ [''a'', ''b'']"
  by (simp add: WithSBOMFormats_def WithLogPolicy_def NewApkoBuilder_def)

text \<open>
  C3 (amended). \<open>WithKeyring\<close>, \<open>WithExtraArg\<close>, \<open>WithPackageAppend\<close> and
  \<open>WithRepositoryAppend\<close> append to the list the builder holds, in call order;
  \<open>WithSBOMFormats\<close> and \<open>WithLogPolicy\<close> replace the list by the arguments of the
  latest call.
\<close>

theorem list_setters:
  "keyringPaths (WithKeyring y (WithKeyring x b)) = keyringPaths b @ [x, y] \<and>
   extraArgs (WithExtraArg y (WithExtraArg x b)) = extraArgs b @ [x, y] \<and>
   packageAppend (WithPackageAppend ys (WithPackageAppend xs b)) = packageAppend b @ xs @ ys \<and>
   repositoryAppend (WithRepositoryAppend y (WithRepositoryAppend x b))
     = repositoryAppend b @ [x, y] \<and>
   sbomFormats (WithSBOMFormats ys (WithSBOMFormats xs b)) = ys \<and>
   logPolicy (WithLogPolicy ys (WithLogPolicy xs b)) = ys"
  by (simp add: WithKeyring_def WithExtraArg_def WithPackageAppend_def
      WithRepositoryAppend_def WithSBOMFormats_def WithLogPolicy_def)

text \<open>
  C4 (counterexample). On the scenario builder, where no call touched the toggles, both
  toggles are false and both flags are in the output; and after \<open>WithSBOM(false)\<close> an
  extra argument spelled like the flag makes two occurrences of it.
\<close>

theorem sbom_vcs_flags_counterexample:
  "\<not> sbom scenario_builder \<and> \<not> vcs scenario_builder \<and>
   fst (BuildCommand scenario_builder) =
     (Some [''apko'', ''build'', ''--cache-dir'', ''/cache'', ''--sbom=false'',
            ''--vcs=false'', ''app.yaml'', ''myimage:latest'', ''out.tar''], None) \<and>
   ''--sbom=false'' \<in> set [''apko'', ''build'', ''--cache-dir'', ''/cache'', ''--sbom=false'',
            ''--vcs=false'', ''app.yaml'', ''myimage:latest'', ''out.tar''] \<and>
   ''--vcs=false'' \<in> set [''apko'', ''build'', ''--cache-dir'', ''/cache'', ''--sbom=false'',
            ''--vcs=false'', ''app.yaml'', ''myimage:latest'', ''out.tar''] \<and>
   fst (BuildCommand (WithSBOM False (WithExtraArg ''--sbom=false'' scenario_builder))) =
     (Some [''apko'', ''build'', ''--cache-dir'', ''/cache'', ''--sbom=false'',
            ''--vcs=false'', ''app.yaml'', ''myimage:latest'', ''out.tar'',
            ''--sbom=false''], None) \<and>
   count_list [''apko'', ''build'', ''--cache-dir'', ''/cache'', ''--sbom=false'',
            ''--vcs=false'', ''app.yaml'', ''myimage:latest'', ''out.tar'',
            ''--sbom=false''] ''--sbom=false'' = 2"
  by (simp add: BuildCommand_def scenario_builder_def NewApkoBuilder_def setter_defs)

text \<open>
  C4 (amended). A toggle that no call of \<open>WithSBOM\<close> (\<open>WithVCS\<close>) has set is false, the
  zero value a new builder starts with. For a builder with the three required fields,
  \<open>BuildCommand\<close> itself puts the flag \<open>--sbom=false\<close> (\<open>--vcs=false\<close>) into the output
  once when the toggle is false and not at all when it is true: the flag occurs as often
  as that plus the number of caller-supplied tokens spelled like it. So after
  \<open>WithSBOM(false)\<close> (\<open>WithVCS(false)\<close>) the flag occurs exactly once when no
  caller-supplied token is spelled like it.
\<close>

theorem sbom_vcs_flags:
  "(list_all (\<lambda>c. \<not> sets_sbom c) cs \<longrightarrow> \<not> sbom (chain cs NewApkoBuilder)) \<and>
   (list_all (\<lambda>c. \<not> sets_vcs c) cs \<longrightarrow> \<not> vcs (chain cs NewApkoBuilder)) \<and>
   (configFile b \<noteq> [] \<and> outputImage b \<noteq> [] \<and> outputTarball b \<noteq> [] \<longrightarrow>
      (\<exists>cmd. fst (BuildCommand b) = (Some cmd, None) \<and>
         count_list cmd ''--sbom=false'' =
           (if sbom b then 0 else 1) + count_list (caller_tokens b) ''--sbom=false'' \<and>
         count_list cmd ''--vcs=false'' =
           (if vcs b then 0 else 1) + count_list (caller_tokens b) ''--vcs=false'') \<and>
      (\<exists>cmd. fst (BuildCommand (WithSBOM False b)) = (Some cmd, None) \<and>
         count_list cmd ''--sbom=false'' = 1 + count_list (caller_tokens b) ''--sbom=false'') \<and>
      (\<exists>cmd. fst (BuildCommand (WithVCS False b)) = (Some cmd, None) \<and>
         count_list cmd ''--vcs=false'' = 1 + count_list (caller_tokens b) ''--vcs=false''))"
proof (intro conjI impI)
  assume "list_all (\<lambda>c. \<not> sets_sbom c) cs"
  then show "\<not> sbom (chain cs NewApkoBuilder)"
    by (simp add: chain_keeps_sbom NewApkoBuilder_def)
next
  assume "list_all (\<lambda>c. \<not> sets_vcs c) cs"
  then show "\<not> vcs (chain cs NewApkoBuilder)"
    by (simp add: chain_keeps_vcs NewApkoBuilder_def)
next
  assume v: "configFile b \<noteq> [] \<and> outputImage b \<noteq> [] \<and> outputTarball b \<noteq> []"
  then show "\<exists>cmd. fst (BuildCommand b) = (Some cmd, None) \<and>
         count_list cmd ''--sbom=false'' =
           (if sbom b then 0 else 1) + count_list (caller_tokens b) ''--sbom=false'' \<and>
         count_list cmd ''--vcs=false'' =
           (if vcs b then 0 else 1) + count_list (caller_tokens b) ''--vcs=false''"
    by (simp add: BuildCommand_counts)
  have "caller_tokens (WithSBOM False b) = caller_tokens b"
    by (simp add: caller_tokens_def WithSBOM_def)
  then show "\<exists>cmd. fst (BuildCommand (WithSBOM False b)) = (Some cmd, None) \<and>
         count_list cmd ''--sbom=false'' = 1 + count_list (caller_tokens b) ''--sbom=false''"
    using v BuildCommand_counts [of "WithSBOM False b"] by (auto simp: WithSBOM_def)
  have "caller_tokens (WithVCS False b) = caller_tokens b"
    by (simp add: caller_tokens_def WithVCS_def)
  then show "\<exists>cmd. fst (BuildCommand (WithVCS False b)) = (Some cmd, None) \<and>
         count_list cmd ''--vcs=false'' = 1 + count_list (caller_tokens b) ''--vcs=false''"
    using v BuildCommand_counts [of "WithVCS False b"] by (auto simp: WithVCS_def)
qed

theorem sbom_vcs_flags_witness:
  "list_all (\<lambda>c. \<not> sets_sbom c) scenario_calls \<and>
   list_all (\<lambda>c. \<not> sets_vcs c) scenario_calls \<and>
   chain scenario_calls NewApkoBuilder = scenario_builder \<and>
   \<not> sbom scenario_builder \<and> \<not> vcs scenario_builder \<and>
   configFile scenario_builder \<noteq> [] \<and> outputImage scenario_builder \<noteq> [] \<and>
   outputTarball scenario_builder \<noteq> [] \<and>
   (\<exists>cmd. fst (BuildCommand scenario_builder) = (Some cmd, None) \<and>
      count_list cmd ''--sbom=false'' = 1 \<and> count_list cmd ''--vcs=false'' = 1) \<and>
   (\<exists>cmd. fst (BuildCommand (WithSBOM False scenario_builder)) = (Some cmd, None) \<and>
      count_list cmd ''--sbom=false'' = 1)"
proof -
  have un: "list_all (\<lambda>c. \<not> sets_sbom c) scenario_calls"
    "list_all (\<lambda>c. \<not> sets_vcs c) scenario_calls"
    by (simp_all add: scenario_calls_def)
  have ch: "chain scenario_calls NewApkoBuilder = scenario_builder"
    by (simp add: chain_def scenario_calls_def scenario_builder_def)
  have v: "configFile scenario_builder \<noteq> [] \<and> outputImage scenario_builder \<noteq> [] \<and>
           outputTarball scenario_builder \<noteq> []"
    by (simp add: scenario_builder_def NewApkoBuilder_def setter_defs)
  have ct: "caller_tokens scenario_builder = [''/cache'', [], [], ''app.yaml'', ''out.tar'']"
    by (simp add: caller_tokens_def scenario_builder_def NewApkoBuilder_def setter_defs)
  note t = sbom_vcs_flags [of scenario_calls scenario_builder]
  from t un ch have off: "\<not> sbom scenario_builder" "\<not> vcs scenario_builder" by simp_all
  from t v have
    "\<exists>cmd. fst (BuildCommand scenario_builder) = (Some cmd, None) \<and>
         count_list cmd ''--sbom=false'' =
           (if sbom scenario_builder then 0 else 1) +
           count_list (caller_tokens scenario_builder) ''--sbom=false'' \<and>
         count_list cmd ''--vcs=false'' =
           (if vcs scenario_builder then 0 else 1) +
           count_list (caller_tokens scenario_builder) ''--vcs=false''"
    and "\<exists>cmd. fst (BuildCommand (WithSBOM False scenario_builder)) = (Some cmd, None) \<and>
         count_list cmd ''--sbom=false'' =
           1 + count_list (caller_tokens scenario_builder) ''--sbom=false''"
    by blast+
  then have
    c1: "\<exists>cmd. fst (BuildCommand scenario_builder) = (Some cmd, None) \<and>
      count_list cmd ''--sbom=false'' = 1 \<and> count_list cmd ''--vcs=false'' = 1"
    and c2: "\<exists>cmd. fst (BuildCommand (WithSBOM False scenario_builder)) = (Some cmd, None) \<and>
      count_list cmd ''--sbom=false'' = 1"
    using off by (simp_all add: ct)
  show ?thesis using un ch off v c1 c2 by blast
qed

text \<open>
  C5. On a builder with the three required fields set, a second call of \<open>BuildCommand\<close>
  right after the first (on the builder the first call left behind) returns the same
  sequence with a nil error, and leaves the builder as the first call left it: the
  defaulted tag is stable.
\<close>

theorem BuildCommand_twice:
  assumes "configFile b \<noteq> []" and "outputImage b \<noteq> []" and "outputTarball b \<noteq> []"
  shows "\<exists>cmd. fst (BuildCommand b) = (Some cmd, None) \<and>
           fst (BuildCommand (snd (BuildCommand b))) = (Some cmd, None) \<and>
           snd (BuildCommand (snd (BuildCommand b))) = snd (BuildCommand b) \<and>
           tag (snd (BuildCommand b)) = (if tag b = [] then ''latest'' else tag b)"
proof -
  let ?b1 = "b\<lparr>tag := (if tag b = [] then ''latest'' else tag b)\<rparr>"
  have first: "BuildCommand b =
      ((Some (base_tokens @ flag_tokens b @ positional_tokens b @ extraArgs b), None), ?b1)"
    using assms by (rule BuildCommand_layout)
  have valid1: "configFile ?b1 \<noteq> []" "outputImage ?b1 \<noteq> []" "outputTarball ?b1 \<noteq> []"
    using assms by simp_all
  have same: "flag_tokens ?b1 = flag_tokens b" "positional_tokens ?b1 = positional_tokens b"
    "extraArgs ?b1 = extraArgs b"
    by (simp_all add: flag_tokens_def cache_dir_flag_def keyring_flags_def arch_flag_def
        build_context_flag_def sbom_flag_def vcs_flag_def positional_tokens_def
        image_reference_def)
  have second: "BuildCommand ?b1 =
      ((Some (base_tokens @ flag_tokens b @ positional_tokens b @ extraArgs b), None), ?b1)"
    using BuildCommand_layout [OF valid1] same by simp
  show ?thesis using first second by simp
qed

theorem BuildCommand_twice_witness:
  "configFile scenario_builder \<noteq> [] \<and> outputImage scenario_builder \<noteq> [] \<and>
   outputTarball scenario_builder \<noteq> [] \<and> tag scenario_builder = [] \<and>
   (\<exists>cmd. fst (BuildCommand scenario_builder) = (Some cmd, None) \<and>
      fst (BuildCommand (snd (BuildCommand scenario_builder))) = (Some cmd, None) \<and>
      snd (BuildCommand (snd (BuildCommand scenario_builder)))
        = snd (BuildCommand scenario_builder) \<and>
      tag (snd (BuildCommand scenario_builder)) = ''latest'')"
proof -
  have v: "configFile scenario_builder \<noteq> []" "outputImage scenario_builder \<noteq> []"
    "outputTarball scenario_builder \<noteq> []" "tag scenario_builder = []"
    by (simp_all add: scenario_builder_def NewApkoBuilder_def setter_defs)
  show ?thesis using v BuildCommand_twice [OF v(1) v(2) v(3)] by simp
qed

text \<open>
  C6. Whenever \<open>BuildCommand\<close> succeeds, its sequence is the two base tokens, then the
  flag tokens in their declared order, then the three positional arguments, then the
  extra arguments; the four groups sit at the positions their lengths give.
\<close>

theorem BuildCommand_ordering:
  assumes "fst (BuildCommand b) = (Some cmd, None)"
  shows "cmd = base_tokens @ flag_tokens b @ positional_tokens b @ extraArgs b \<and>
         take 2 cmd = [''apko'', ''build''] \<and>
         take (length (flag_tokens b)) (drop 2 cmd) = flag_tokens b \<and>
         take 3 (drop (2 + length (flag_tokens b)) cmd) =
           [configFile b, image_reference b, outputTarball b] \<and>
         drop (2 + length (flag_tokens b) + 3) cmd = extraArgs b"
proof -
  have valid: "configFile b \<noteq> []" "outputImage b \<noteq> []" "outputTarball b \<noteq> []"
    using assms BuildCommand_missing [of b] by auto
  have eq: "cmd = base_tokens @ flag_tokens b @ positional_tokens b @ extraArgs b"
    using assms BuildCommand_layout [OF valid] by simp
  have la: "length base_tokens = 2" and lp: "length (positional_tokens b) = 3"
    by (simp_all add: base_tokens_def positional_tokens_def)
  show ?thesis
    using eq four_groups [OF eq] unfolding la lp
    by (simp add: base_tokens_def positional_tokens_def)
qed

theorem BuildCommand_ordering_witness:
  "fst (BuildCommand ordering_builder) =
     (Some [''apko'', ''build'', ''--cache-dir'', ''/cache'', ''--keyring-append'', ''k1'',
            ''--keyring-append'', ''k2'', ''--arch'', ''aarch64'', ''--sbom=false'',
            ''app.yaml'', ''myimage:latest'', ''out.tar'', ''--x''], None) \<and>
   [''apko'', ''build'', ''--cache-dir'', ''/cache'', ''--keyring-append'', ''k1'',
    ''--keyring-append'', ''k2'', ''--arch'', ''aarch64'', ''--sbom=false'',
    ''app.yaml'', ''myimage:latest'', ''out.tar'', ''--x'']
     = base_tokens @ flag_tokens ordering_builder @ positional_tokens ordering_builder @ extraArgs ordering_builder \<and>
   flag_tokens ordering_builder = [''--cache-dir'', ''/cache'', ''--keyring-append'', ''k1'',
            ''--keyring-append'', ''k2'', ''--arch'', ''aarch64'', ''--sbom=false''] \<and>
   positional_tokens ordering_builder = [''app.yaml'', ''myimage:latest'', ''out.tar''] \<and>
   extraArgs ordering_builder = [''--x'']"
proof -
  have run: "fst (BuildCommand ordering_builder) =
     (Some [''apko'', ''build'', ''--cache-dir'', ''/cache'', ''--keyring-append'', ''k1'',
            ''--keyring-append'', ''k2'', ''--arch'', ''aarch64'', ''--sbom=false'',
            ''app.yaml'', ''myimage:latest'', ''out.tar'', ''--x''], None)"
    by (simp add: BuildCommand_def ordering_builder_def scenario_builder_def NewApkoBuilder_def setter_defs)
  note layout = BuildCommand_ordering [OF run, THEN conjunct1]
  have fl: "flag_tokens ordering_builder = [''--cache-dir'', ''/cache'', ''--keyring-append'', ''k1'',
            ''--keyring-append'', ''k2'', ''--arch'', ''aarch64'', ''--sbom=false'']"
    by (simp add: flag_tokens_def cache_dir_flag_def keyring_flags_def arch_flag_def
        build_context_flag_def sbom_flag_def vcs_flag_def ordering_builder_def scenario_builder_def NewApkoBuilder_def
        setter_defs)
  have po: "positional_tokens ordering_builder = [''app.yaml'', ''myimage:latest'', ''out.tar'']"
    by (simp add: positional_tokens_def image_reference_def ordering_builder_def scenario_builder_def NewApkoBuilder_def
        setter_defs)
  have ex: "extraArgs ordering_builder = [''--x'']"
    by (simp add: ordering_builder_def scenario_builder_def NewApkoBuilder_def setter_defs)
  show ?thesis
    by (intro conjI) (fact run, fact layout, fact fl, fact po, fact ex)
qed

text \<open>
  C9. \<open>BuildCommand\<close> leaves every field of the builder but \<open>tag\<close> as it was, on success
  and on failure; the tag becomes "latest" when the call succeeds and the tag was empty,
  and is unchanged otherwise.
\<close>

theorem BuildCommand_frame:
  "snd (BuildCommand b) =
     b\<lparr>tag := (if configFile b \<noteq> [] \<and> outputImage b \<noteq> [] \<and> outputTarball b \<noteq> [] \<and> tag b = []
               then ''latest'' else tag b)\<rparr> \<and>
   (snd (BuildCommand b))\<lparr>tag := t\<rparr> = b\<lparr>tag := t\<rparr>"
  by (simp add: BuildCommand_def Let_def)

text \<open>
  C10. Two builders that agree on configFile, outputImage, tag, outputTarball, cacheDir,
  keyringPaths, buildArch, buildContext, sbom, vcs and extraArgs get the same sequence
  and the same error, whatever their other fields hold; in particular
  \<open>WithWolfiKeyring\<close> and \<open>WithAlpineKeyring\<close> do not change the result.
\<close>

theorem BuildCommand_depends_on:
  assumes "configFile b = configFile b'" and "outputImage b = outputImage b'"
    and "tag b = tag b'" and "outputTarball b = outputTarball b'"
    and "cacheDir b = cacheDir b'" and "keyringPaths b = keyringPaths b'"
    and "buildArch b = buildArch b'" and "buildContext b = buildContext b'"
    and "sbom b = sbom b'" and "vcs b = vcs b'" and "extraArgs b = extraArgs b'"
  shows "fst (BuildCommand b) = fst (BuildCommand b') \<and>
         fst (BuildCommand (WithWolfiKeyring b)) = fst (BuildCommand b) \<and>
         fst (BuildCommand (WithAlpineKeyring b)) = fst (BuildCommand b)"
  using assms by (simp add: BuildCommand_def Let_def WithWolfiKeyring_def WithAlpineKeyring_def)

theorem BuildCommand_depends_on_witness:
  "debug other_fields_builder \<and> \<not> debug scenario_builder \<and>
   sbomFormats other_fields_builder = [''spdx''] \<and> sbomFormats scenario_builder = [] \<and>
   wolfiKeyring other_fields_builder \<and> \<not> wolfiKeyring scenario_builder \<and>
   configFile other_fields_builder = configFile scenario_builder \<and>
   outputImage other_fields_builder = outputImage scenario_builder \<and>
   tag other_fields_builder = tag scenario_builder \<and>
   outputTarball other_fields_builder = outputTarball scenario_builder \<and>
   cacheDir other_fields_builder = cacheDir scenario_builder \<and>
   keyringPaths other_fields_builder = keyringPaths scenario_builder \<and>
   buildArch other_fields_builder = buildArch scenario_builder \<and>
   buildContext other_fields_builder = buildContext scenario_builder \<and>
   sbom other_fields_builder = sbom scenario_builder \<and>
   vcs other_fields_builder = vcs scenario_builder \<and>
   extraArgs other_fields_builder = extraArgs scenario_builder \<and>
   fst (BuildCommand other_fields_builder) = fst (BuildCommand scenario_builder)"
proof -
  have agree:
    "configFile other_fields_builder = configFile scenario_builder"
    "outputImage other_fields_builder = outputImage scenario_builder"
    "tag other_fields_builder = tag scenario_builder"
    "outputTarball other_fields_builder = outputTarball scenario_builder"
    "cacheDir other_fields_builder = cacheDir scenario_builder"
    "keyringPaths other_fields_builder = keyringPaths scenario_builder"
    "buildArch other_fields_builder = buildArch scenario_builder"
    "buildContext other_fields_builder = buildContext scenario_builder"
    "sbom other_fields_builder = sbom scenario_builder"
    "vcs other_fields_builder = vcs scenario_builder"
    "extraArgs other_fields_builder = extraArgs scenario_builder"
    by (simp_all add: other_fields_builder_def setter_defs)
  have differ:
    "debug other_fields_builder" "\<not> debug scenario_builder"
    "sbomFormats other_fields_builder = [''spdx'']" "sbomFormats scenario_builder = []"
    "wolfiKeyring other_fields_builder" "\<not> wolfiKeyring scenario_builder"
    by (simp_all add: other_fields_builder_def scenario_builder_def NewApkoBuilder_def
        setter_defs)
  note same = BuildCommand_depends_on [OF agree, THEN conjunct1]
  show ?thesis using agree differ same by simp
qed

section \<open>Claims about the preset lookup and the configuration file check\<close>

text \<open>
  C7. \<open>GetKeyringInfoForPreset\<close> returns the fixed URL and key path (the path being the
  package's constant) with a nil error for "wolfi" and for "alpine", and for every other
  string, compared byte for byte, the zero struct and the error "unsupported preset: "
  followed by the string.
\<close>

theorem GetKeyringInfoForPreset_cases:
  "GetKeyringInfoForPreset ''wolfi'' =
     (\<lparr>KeyURL = ''https://packages.wolfi.dev/os/wolfi-signing.rsa.pub'',
       KeyPath = ApkoWolfiSigninRsaKeyPath\<rparr>, None) \<and>
   GetKeyringInfoForPreset ''alpine'' =
     (\<lparr>KeyURL = ''https://alpinelinux.org/keys/alpine-devel@lists.alpinelinux.org-4a6a0840.rsa.pub'',
       KeyPath = ApkoAlpineSigninRsaKeyPath\<rparr>, None) \<and>
   (\<forall>preset. preset \<noteq> ''wolfi'' \<and> preset \<noteq> ''alpine'' \<longrightarrow>
      GetKeyringInfoForPreset preset =
        (\<lparr>KeyURL = [], KeyPath = []\<rparr>, Some (Errorf (''unsupported preset: '' @ preset))))"
  by (simp add: GetKeyringInfoForPreset_def ApkoWolfiSigninRsaKeyPath_def
      ApkoAlpineSigninRsaKeyPath_def)

theorem GetKeyringInfoForPreset_cases_witness:
  "''Wolfi'' \<noteq> ''wolfi'' \<and> ''Wolfi'' \<noteq> ''alpine'' \<and>
   GetKeyringInfoForPreset ''Wolfi'' =
     (\<lparr>KeyURL = [], KeyPath = []\<rparr>, Some (Errorf ''unsupported preset: Wolfi'')) \<and>
   GetKeyringInfoForPreset '' alpine'' =
     (\<lparr>KeyURL = [], KeyPath = []\<rparr>, Some (Errorf ''unsupported preset:  alpine'')) \<and>
   GetKeyringInfoForPreset [] =
     (\<lparr>KeyURL = [], KeyPath = []\<rparr>, Some (Errorf ''unsupported preset: ''))"
proof -
  note other = GetKeyringInfoForPreset_cases [THEN conjunct2, THEN conjunct2, rule_format]
  have a: "''Wolfi'' \<noteq> ''wolfi'' \<and> ''Wolfi'' \<noteq> ''alpine''" by simp
  have b: "'' alpine'' \<noteq> ''wolfi'' \<and> '' alpine'' \<noteq> ''alpine''" by simp
  have c: "[] \<noteq> ''wolfi'' \<and> [] \<noteq> ''alpine''" by simp
  show ?thesis using a other [OF a] other [OF b] other [OF c] by simp
qed

text \<open>
  C8. For every prefix (and every default prefix, on either system),
  \<open>GetApkoConfigOrPreset\<close> fails with "config file is required" on the empty file, with
  "config file must have an extension" on a file whose final element has no dot, with
  "config file must have a .yaml or .yml extension" on a file with an extension that
  does not end in .yaml or .yml, and returns the file unchanged otherwise; the three
  concrete cases "cfg", "cfg.json" and "cfg.yaml" are as stated.
\<close>

theorem GetApkoConfigOrPreset_cases:
  "(cfgFile = [] \<longrightarrow>
      GetApkoConfigOrPreset os dflt mntPrefix cfgFile =
        ([], Some (Errorf ''config file is required''))) \<and>
   (cfgFile \<noteq> [] \<and> \<not> has_extension os cfgFile \<longrightarrow>
      GetApkoConfigOrPreset os dflt mntPrefix cfgFile =
        ([], Some (Errorf ''config file must have an extension''))) \<and>
   (has_extension os cfgFile \<and> \<not> suffix ''.yaml'' cfgFile \<and> \<not> suffix ''.yml'' cfgFile \<longrightarrow>
      GetApkoConfigOrPreset os dflt mntPrefix cfgFile =
        ([], Some (Errorf ''config file must have a .yaml or .yml extension''))) \<and>
   (suffix ''.yaml'' cfgFile \<or> suffix ''.yml'' cfgFile \<longrightarrow>
      GetApkoConfigOrPreset os dflt mntPrefix cfgFile = (cfgFile, None)) \<and>
   GetApkoConfigOrPreset os dflt [] ''cfg'' =
     ([], Some (Errorf ''config file must have an extension'')) \<and>
   GetApkoConfigOrPreset os dflt [] ''cfg.json'' =
     ([], Some (Errorf ''config file must have a .yaml or .yml extension'')) \<and>
   GetApkoConfigOrPreset os dflt [] ''cfg.yaml'' = (''cfg.yaml'', None)"
proof -
  have empty: "cfgFile = [] \<Longrightarrow> \<not> has_extension os cfgFile"
    by (simp add: has_extension_def final_element_def)
  have general: "GetApkoConfigOrPreset os dflt mntPrefix cfgFile =
     (if cfgFile = [] then ([], Some (Errorf ''config file is required''))
      else if \<not> has_extension os cfgFile then
        ([], Some (Errorf ''config file must have an extension''))
      else if \<not> suffix ''.yaml'' cfgFile \<and> \<not> suffix ''.yml'' cfgFile then
        ([], Some (Errorf ''config file must have a .yaml or .yml extension''))
      else (cfgFile, None))" for mntPrefix cfgFile
    by (simp add: GetApkoConfigOrPreset_def Let_def Ext_empty_iff Ext_yaml_iff Ext_yml_iff)
  have yaml: "suffix ''.yaml'' cfgFile \<or> suffix ''.yml'' cfgFile \<Longrightarrow>
      cfgFile \<noteq> [] \<and> has_extension os cfgFile"
    using Ext_empty_iff [of os cfgFile] Ext_yaml_iff [of os cfgFile] Ext_yml_iff [of os cfgFile]
    by (auto simp: suffix_def)
  have c1: "cfgFile = [] \<longrightarrow>
      GetApkoConfigOrPreset os dflt mntPrefix cfgFile =
        ([], Some (Errorf ''config file is required''))"
    by (simp add: general)
  have c2: "cfgFile \<noteq> [] \<and> \<not> has_extension os cfgFile \<longrightarrow>
      GetApkoConfigOrPreset os dflt mntPrefix cfgFile =
        ([], Some (Errorf ''config file must have an extension''))"
    by (simp add: general)
  have c3: "has_extension os cfgFile \<and> \<not> suffix ''.yaml'' cfgFile \<and> \<not> suffix ''.yml'' cfgFile \<longrightarrow>
      GetApkoConfigOrPreset os dflt mntPrefix cfgFile =
        ([], Some (Errorf ''config file must have a .yaml or .yml extension''))"
    using empty by (auto simp: general)
  have c4: "suffix ''.yaml'' cfgFile \<or> suffix ''.yml'' cfgFile \<longrightarrow>
      GetApkoConfigOrPreset os dflt mntPrefix cfgFile = (cfgFile, None)"
    using yaml by (auto simp: general)
  have e1: "Ext os ''cfg'' = []"
    by (cases os) (simp_all add: Ext_def numeral_3_eq_3)
  have e2: "Ext os ''cfg.json'' = ''.json''"
    using Ext_dot_append [of "''json''" os "''cfg''"] by (cases os) simp_all
  have e3: "Ext os ''cfg.yaml'' = ''.yaml''"
    using Ext_yaml_iff [of os "''cfg.yaml''"] by (simp add: suffix_def)
  have c5: "GetApkoConfigOrPreset os dflt [] ''cfg'' =
     ([], Some (Errorf ''config file must have an extension''))"
    by (simp add: GetApkoConfigOrPreset_def e1)
  have c6: "GetApkoConfigOrPreset os dflt [] ''cfg.json'' =
     ([], Some (Errorf ''config file must have a .yaml or .yml extension''))"
    by (simp add: GetApkoConfigOrPreset_def e2)
  have c7: "GetApkoConfigOrPreset os dflt [] ''cfg.yaml'' = (''cfg.yaml'', None)"
    by (simp add: GetApkoConfigOrPreset_def e3)
  show ?thesis
    by (intro conjI) (fact c1, fact c2, fact c3, fact c4, fact c5, fact c6, fact c7)
qed

theorem GetApkoConfigOrPreset_cases_witness:
  "GetApkoConfigOrPreset Unix ''/mnt'' ''/work'' [] =
     ([], Some (Errorf ''config file is required'')) \<and>
   \<not> has_extension Unix ''conf.d/app'' \<and>
   GetApkoConfigOrPreset Unix ''/mnt'' ''/work'' ''conf.d/app'' =
     ([], Some (Errorf ''config file must have an extension'')) \<and>
   has_extension Windows ''app.yaml.bak'' \<and>
   GetApkoConfigOrPreset Windows ''/mnt'' [] ''app.yaml.bak'' =
     ([], Some (Errorf ''config file must have a .yaml or .yml extension'')) \<and>
   suffix ''.yml'' ''conf/app.yml'' \<and>
   GetApkoConfigOrPreset Unix ''/mnt'' ''/work'' ''conf/app.yml'' = (''conf/app.yml'', None)"
proof -
  have h2: "''conf.d/app'' \<noteq> [] \<and> \<not> has_extension Unix ''conf.d/app''"
    by (simp add: has_extension_def final_element_def)
  have h3: "has_extension Windows ''app.yaml.bak'' \<and> \<not> suffix ''.yaml'' ''app.yaml.bak'' \<and>
            \<not> suffix ''.yml'' ''app.yaml.bak''"
    by (simp add: has_extension_def final_element_def suffix_to_prefix)
  have h4: "suffix ''.yaml'' ''conf/app.yml'' \<or> suffix ''.yml'' ''conf/app.yml''"
    by (simp add: suffix_to_prefix)
  note t1 = GetApkoConfigOrPreset_cases [of "[]" Unix "''/mnt''" "''/work''", THEN conjunct1,
      rule_format, OF refl]
  note t2 = GetApkoConfigOrPreset_cases [of "''conf.d/app''" Unix "''/mnt''" "''/work''",
      THEN conjunct2, THEN conjunct1, rule_format, OF h2]
  note t3 = GetApkoConfigOrPreset_cases [of "''app.yaml.bak''" Windows "''/mnt''" "[]",
      THEN conjunct2, THEN conjunct2, THEN conjunct1, rule_format, OF h3]
  note t4 = GetApkoConfigOrPreset_cases [of "''conf/app.yml''" Unix "''/mnt''" "''/work''",
      THEN conjunct2, THEN conjunct2, THEN conjunct2, THEN conjunct1, rule_format, OF h4]
  have s4: "suffix ''.yml'' ''conf/app.yml''" by (simp add: suffix_to_prefix)
  show ?thesis
    using t1 t2 t3 t4 h2 h3 s4 by simp
qed

end
